theory Spec2Isabelle
  imports Complex_Main "HOL-Library.Sublist"
begin

section \<open>JavaScript values and idioms used by the code\<close>

text \<open>
  A value that travels through \<^verbatim>\<open>throw\<close> / a rejected promise. The code only ever asks
  one question of it, \<^verbatim>\<open>err instanceof Error ? err.message : fallback\<close>, so a thrown value is
  either an \<^verbatim>\<open>Error\<close> object with its message or some other value (described by a string,
  so that two such values can differ).
\<close>

datatype thrown = Error (message: string) | NonError string

text \<open>\<^verbatim>\<open>err instanceof Error ? err.message : fallback\<close>\<close>

fun message_or :: "thrown \<Rightarrow> string \<Rightarrow> string" where
  "message_or (Error m) fallback = m"
| "message_or (NonError _) fallback = fallback"

text \<open>
  Truthiness of a string that may be absent: \<^verbatim>\<open>undefined\<close> and the empty string are
  falsy, every other string is truthy. \<^verbatim>\<open>a || b\<close> on such a value is \<open>or_else\<close>.
\<close>

fun truthy :: "string option \<Rightarrow> bool" where
  "truthy None = False"
| "truthy (Some s) = (s \<noteq> [])"

fun or_else :: "string option \<Rightarrow> string \<Rightarrow> string" where
  "or_else None d = d"
| "or_else (Some s) d = (if s \<noteq> [] then s else d)"

text \<open>
  \<^verbatim>\<open>String.prototype.includes\<close>: the search string occurs at some position of the string
  (the empty search string occurs in every string).
\<close>

fun str_includes :: "string \<Rightarrow> string \<Rightarrow> bool" where
  "str_includes [] searchString = (searchString = [])"
| "str_includes (c # cs) searchString =
     (prefix searchString (c # cs) \<or> str_includes cs searchString)"


section \<open>The model catalog and the credential resolver (constants/GoogleAIConfig)\<close>

text \<open>
  \<^verbatim>\<open>GEMINI_MODELS\<close> is an object literal; the demo screen walks it with
  \<^verbatim>\<open>Object.entries\<close>, so it is kept as the ordered list of its (key, value) entries.
  A property access \<^verbatim>\<open>GEMINI_MODELS.K\<close> is \<open>map_of GEMINI_MODELS K\<close>.
\<close>

definition GEMINI_MODELS :: "(string \<times> string) list" where
  "GEMINI_MODELS =
     [(''GEMINI_PRO'', ''gemini-pro''),
      (''GEMINI_PRO_VISION'', ''gemini-pro-vision''),
      (''GEMINI_15_PRO'', ''gemini-1.5-pro''),
      (''GEMINI_15_FLASH'', ''gemini-1.5-flash''),
      (''GEMINI_20_FLASH'', ''gemini-2.0-flash''),
      (''GEMINI_20_FLASH_LITE'', ''gemini-2.0-flash-lite''),
      (''GEMINI_20_PRO'', ''gemini-2.0-pro'')]"

text \<open>\<^verbatim>\<open>GEMINI_MODELS.GEMINI_PRO\<close>, the entry the hook and \<^verbatim>\<open>DEFAULT_MODEL\<close> read.\<close>

definition GEMINI_PRO :: string where
  "GEMINI_PRO = the (map_of GEMINI_MODELS ''GEMINI_PRO'')"

definition GOOGLE_AI_API_KEY :: string where
  "GOOGLE_AI_API_KEY = ''YOUR_API_KEY''"

definition DEFAULT_MODEL :: string where
  "DEFAULT_MODEL = GEMINI_PRO"

text \<open>
  \<^verbatim>\<open>getApiKey\<close>: \<^verbatim>\<open>process.env.GOOGLE_AI_API_KEY || GOOGLE_AI_API_KEY\<close>. The environment
  variable is the argument (absent is \<open>None\<close>).
\<close>

definition getApiKey :: "string option \<Rightarrow> string" where
  "getApiKey env = or_else env GOOGLE_AI_API_KEY"


section \<open>The vendor SDK, as far as the adapter touches it\<close>

text \<open>
  The package \<^verbatim>\<open>@google/generative-ai\<close> is not part of the repository. Its objects are
  modelled by what the adapter hands to them and reads from them: a client handle keeps
  the key it was built with, a model handle keeps its parameters, a chat session keeps the
  model handle and the parameters \<^verbatim>\<open>startChat\<close> was called with. What the network
  answers is a parameter of the operations (the record \<open>vendor\<close> below): every awaited
  call either yields a value or throws.
\<close>

datatype HarmCategory =
    HARM_CATEGORY_UNSPECIFIED
  | HARM_CATEGORY_HATE_SPEECH
  | HARM_CATEGORY_SEXUALLY_EXPLICIT
  | HARM_CATEGORY_HARASSMENT
  | HARM_CATEGORY_DANGEROUS_CONTENT

datatype HarmBlockThreshold =
    HARM_BLOCK_THRESHOLD_UNSPECIFIED
  | BLOCK_LOW_AND_ABOVE
  | BLOCK_MEDIUM_AND_ABOVE
  | BLOCK_ONLY_HIGH
  | BLOCK_NONE

record SafetySetting =
  category :: HarmCategory
  threshold :: HarmBlockThreshold

text \<open>
  The generation parameters of \<^verbatim>\<open>GoogleAIConfig.generationConfig\<close>: every field is
  optional. The two fractional parameters are decimal literals that the code only stores
  and passes on, so they are kept as the rationals the literals denote.
\<close>

record GenerationConfig =
  temperature :: "rat option"
  topK :: "int option"
  topP :: "rat option"
  maxOutputTokens :: "int option"
  responseMimeType :: "string option"
  candidateCount :: "int option"

text \<open>The argument of \<^verbatim>\<open>genAI.getGenerativeModel\<close>.\<close>

record ModelParams =
  params_model :: string
  params_safetySettings :: "SafetySetting list"
  params_generationConfig :: GenerationConfig

datatype GoogleGenerativeAI = GoogleGenerativeAI (client_apiKey: string)

datatype GenerativeModel =
  GenerativeModel (handle_apiKey: string) (handle_params: ModelParams)

text \<open>A response object: \<^verbatim>\<open>response.text()\<close> returns the text or throws.\<close>

datatype EnhancedGenerateContentResponse =
  EnhancedGenerateContentResponse (response_text: "thrown + string")

text \<open>The result of \<^verbatim>\<open>model.generateContent\<close>: \<^verbatim>\<open>await result.response\<close> yields or throws.\<close>

datatype GenerateContentResult =
  GenerateContentResult (response: "thrown + EnhancedGenerateContentResponse")

text \<open>
  The async iterable \<^verbatim>\<open>result.stream\<close>, as what its iterator does on each \<^verbatim>\<open>next()\<close>:
  it is exhausted, it rejects, or it delivers a chunk and goes on.
\<close>

datatype chunk_stream =
    StreamEnd
  | StreamFail thrown
  | StreamChunk EnhancedGenerateContentResponse chunk_stream

datatype GenerateContentStreamResult =
  GenerateContentStreamResult (stream: chunk_stream)

record Content =
  role :: string
  parts :: "string list"

text \<open>The argument of \<^verbatim>\<open>model.startChat\<close>.\<close>

record StartChatParams =
  history :: "Content list"
  chat_generationConfig :: GenerationConfig

datatype ChatSession =
  ChatSession (session_model: GenerativeModel) (session_params: StartChatParams)

text \<open>
  \<^verbatim>\<open>model.startChat\<close> constructs the session, and the constructor of the SDK validates the
  history it is given: it goes through the turns in order and throws at the first turn it
  refuses (a first turn whose role is not \<^verbatim>\<open>user\<close>, for one). Which turns it refuses is
  the SDK's rule, so the check of one turn is a parameter: it is told whether the turn is
  the first, and it returns normally (\<open>None\<close>) or throws. A history without turns has
  nothing to refuse.
\<close>

type_synonym turn_check = "bool \<Rightarrow> Content \<Rightarrow> thrown option"

fun validateChatHistory :: "turn_check \<Rightarrow> bool \<Rightarrow> Content list \<Rightarrow> thrown option" where
  "validateChatHistory check first [] = None"
| "validateChatHistory check first (turn # rest) =
     (case check first turn of
        Some e \<Rightarrow> Some e
      | None \<Rightarrow> validateChatHistory check False rest)"

record vendor =
  model_generateContent :: "GenerativeModel \<Rightarrow> string \<Rightarrow> thrown + GenerateContentResult"
  model_generateContentStream ::
    "GenerativeModel \<Rightarrow> string \<Rightarrow> thrown + GenerateContentStreamResult"


section \<open>Observable effects\<close>

text \<open>
  What the code does to the world outside it, in the order it does it: the vendor handles
  it constructs, the requests it issues, the calls of the caller's \<^verbatim>\<open>onChunk\<close> and the
  calls of the React state setters. Every effectful operation returns the list of its
  events together with its result. \<^verbatim>\<open>console.error\<close> is not recorded.
\<close>

datatype event =
    NewGoogleGenerativeAI string
  | GetGenerativeModel ModelParams
  | ModelGenerateContent GenerativeModel string
  | ModelGenerateContentStream GenerativeModel string
  | OnChunk string
  | SetIsLoading bool
  | SetIsReady bool
  | SetError "string option"

text \<open>
  The caller's callback \<^verbatim>\<open>onChunk: (text: string) => void\<close>: it may change the caller's own
  state \<open>'c\<close> and it returns normally (\<open>None\<close>) or throws.
\<close>

type_synonym 'c callback = "string \<Rightarrow> 'c \<Rightarrow> 'c \<times> thrown option"


section \<open>The service adapter (services/GoogleAI)\<close>

record GoogleAIConfig =
  apiKey :: string
  config_modelName :: "string option"
  safetySettings :: "SafetySetting list option"
  generationConfig :: "GenerationConfig option"

record GoogleAIService =
  genAI :: GoogleGenerativeAI
  model :: GenerativeModel
  modelName :: string

definition getDefaultSafetySettings :: "SafetySetting list" where
  "getDefaultSafetySettings =
     [\<lparr>category = HARM_CATEGORY_HARASSMENT, threshold = BLOCK_MEDIUM_AND_ABOVE\<rparr>,
      \<lparr>category = HARM_CATEGORY_HATE_SPEECH, threshold = BLOCK_MEDIUM_AND_ABOVE\<rparr>,
      \<lparr>category = HARM_CATEGORY_SEXUALLY_EXPLICIT, threshold = BLOCK_MEDIUM_AND_ABOVE\<rparr>,
      \<lparr>category = HARM_CATEGORY_DANGEROUS_CONTENT, threshold = BLOCK_MEDIUM_AND_ABOVE\<rparr>]"

text \<open>The local \<^verbatim>\<open>config\<close> of \<^verbatim>\<open>getDefaultGenerationConfig\<close>.\<close>

definition base_config :: GenerationConfig where
  "base_config =
     \<lparr>temperature = Some 0.9, topK = Some 1, topP = Some 0.95, maxOutputTokens = Some 2048,
      responseMimeType = None, candidateCount = None\<rparr>"

text \<open>
  \<^verbatim>\<open>getDefaultGenerationConfig\<close> reads \<^verbatim>\<open>this.modelName\<close> and nothing else of the
  instance (the constructor calls it before \<^verbatim>\<open>this.model\<close> exists), so it takes the name.
\<close>

definition getDefaultGenerationConfig :: "string \<Rightarrow> GenerationConfig" where
  "getDefaultGenerationConfig this_modelName =
     (if str_includes this_modelName ''gemini-2.0'' then
        base_config\<lparr>temperature := Some 0.4, maxOutputTokens := Some 8192\<rparr>
      else if str_includes this_modelName ''gemini-1.5'' then
        base_config\<lparr>maxOutputTokens := Some 8192\<rparr>
      else base_config)"

text \<open>
  The constructor. The interface declares \<^verbatim>\<open>modelName: string\<close>, but the body guards it
  with \<^verbatim>\<open>config.modelName || 'gemini-pro'\<close>, so a missing name is an input too. An array
  and an object are always truthy: \<^verbatim>\<open>config.safetySettings || d\<close> takes the default only
  when the field is absent.
\<close>

definition new_GoogleAIService ::
  "GoogleAIConfig \<Rightarrow> event list \<times> (thrown + GoogleAIService)" where
  "new_GoogleAIService config =
     (if \<not> truthy (Some (apiKey config)) then
        ([], Inl (Error ''Google AI API key is required''))
      else
        let this_genAI = GoogleGenerativeAI (apiKey config);
            this_modelName = or_else (config_modelName config) ''gemini-pro'';
            params =
              \<lparr>params_model = this_modelName,
               params_safetySettings =
                 (case safetySettings config of
                    Some s \<Rightarrow> s
                  | None \<Rightarrow> getDefaultSafetySettings),
               params_generationConfig =
                 (case generationConfig config of
                    Some g \<Rightarrow> g
                  | None \<Rightarrow> getDefaultGenerationConfig this_modelName)\<rparr>
        in ([NewGoogleGenerativeAI (apiKey config), GetGenerativeModel params],
            Inr \<lparr>genAI = this_genAI,
                 model = GenerativeModel (client_apiKey this_genAI) params,
                 modelName = this_modelName\<rparr>))"

record GenerativeAIResponse =
  text' :: string
  error :: "string option"

text \<open>
  \<^verbatim>\<open>generateContent\<close>: the three steps of the \<^verbatim>\<open>try\<close> block, each of which may throw,
  and the \<^verbatim>\<open>catch\<close> that turns whatever was thrown into a result.
\<close>

definition generateContent ::
  "vendor \<Rightarrow> GoogleAIService \<Rightarrow> string \<Rightarrow> event list \<times> (thrown + GenerativeAIResponse)" where
  "generateContent v this prompt =
     ([ModelGenerateContent (model this) prompt],
      (case
         (case model_generateContent v (model this) prompt of
            Inl e \<Rightarrow> Inl e
          | Inr result \<Rightarrow>
              (case response result of
                 Inl e \<Rightarrow> Inl e
               | Inr resp \<Rightarrow>
                   (case response_text resp of
                      Inl e \<Rightarrow> Inl e
                    | Inr txt \<Rightarrow> Inr \<lparr>text' = txt, error = None\<rparr>)))
       of
         Inr r \<Rightarrow> Inr r
       | Inl err \<Rightarrow>
           Inr \<lparr>text' = '''', error = Some (message_or err ''Unknown error occurred'')\<rparr>))"

text \<open>
  The \<^verbatim>\<open>for await\<close> loop of \<^verbatim>\<open>generateContentStream\<close>: one iteration per chunk, ended by
  the exhaustion of the stream or by the first thing that throws (the iterator,
  \<^verbatim>\<open>chunk.text()\<close> or the callback).
\<close>

fun for_await :: "'c callback \<Rightarrow> chunk_stream \<Rightarrow> 'c \<Rightarrow> event list \<times> 'c \<times> (thrown + unit)" where
  "for_await onChunk StreamEnd c = ([], c, Inr ())"
| "for_await onChunk (StreamFail e) c = ([], c, Inl e)"
| "for_await onChunk (StreamChunk chunk rest) c =
     (case response_text chunk of
        Inl e \<Rightarrow> ([], c, Inl e)
      | Inr chunkText \<Rightarrow>
          (case onChunk chunkText c of
             (c', Some e) \<Rightarrow> ([OnChunk chunkText], c', Inl e)
           | (c', None) \<Rightarrow>
               (case for_await onChunk rest c' of
                  (evs, c'', r) \<Rightarrow> (OnChunk chunkText # evs, c'', r))))"

text \<open>\<^verbatim>\<open>generateContentStream\<close>: the \<^verbatim>\<open>catch\<close> rethrows what it caught.\<close>

definition generateContentStream ::
  "vendor \<Rightarrow> GoogleAIService \<Rightarrow> string \<Rightarrow> 'c callback \<Rightarrow> 'c
     \<Rightarrow> event list \<times> 'c \<times> (thrown + unit)" where
  "generateContentStream v this prompt onChunk c =
     (case model_generateContentStream v (model this) prompt of
        Inl err \<Rightarrow> ([ModelGenerateContentStream (model this) prompt], c, Inl err)
      | Inr result \<Rightarrow>
          (case for_await onChunk (stream result) c of
             (evs, c', r) \<Rightarrow>
               (ModelGenerateContentStream (model this) prompt # evs, c', r)))"

text \<open>
  \<^verbatim>\<open>startChat(history = [])\<close>: an absent argument is the empty history. The call of
  \<^verbatim>\<open>this.model.startChat\<close> throws when the SDK refuses the history, and the adapter does not
  catch it.
\<close>

definition startChat ::
  "turn_check \<Rightarrow> GoogleAIService \<Rightarrow> Content list option \<Rightarrow> thrown + ChatSession" where
  "startChat check this history_arg =
     (let params =
            \<lparr>history = (case history_arg of None \<Rightarrow> [] | Some h \<Rightarrow> h),
             chat_generationConfig = getDefaultGenerationConfig (modelName this)\<rparr>
      in case validateChatHistory check True (history params) of
           Some e \<Rightarrow> Inl e
         | None \<Rightarrow> Inr (ChatSession (model this) params))"

definition isUsingGemini2Model :: "GoogleAIService \<Rightarrow> bool" where
  "isUsingGemini2Model this = str_includes (modelName this) ''gemini-2.0''"

definition getCurrentModelName :: "GoogleAIService \<Rightarrow> string" where
  "getCurrentModelName this = modelName this"


section \<open>The React hook (hooks/useGoogleAI)\<close>

record UseGoogleAIProps =
  props_modelName :: "string option"

text \<open>
  The three \<^verbatim>\<open>useState\<close> cells of one hook instance, with their initial values, and
  what a list of events does to them (only the setters touch them).
\<close>

record hook_state =
  isLoading :: bool
  isReady :: bool
  hook_error :: "string option"


fun set_state :: "event \<Rightarrow> hook_state \<Rightarrow> hook_state" where
  "set_state (SetIsLoading b) s = s\<lparr>isLoading := b\<rparr>"
| "set_state (SetIsReady b) s = s\<lparr>isReady := b\<rparr>"
| "set_state (SetError e) s = s\<lparr>hook_error := e\<rparr>"
| "set_state _ s = s"

definition state_after :: "event list \<Rightarrow> hook_state \<Rightarrow> hook_state" where
  "state_after evs s = fold set_state evs s"

text \<open>
  \<^verbatim>\<open>initializeService\<close> is an async function with one suspension point,
  \<^verbatim>\<open>await getApiKey()\<close>, which lies between the test \<^verbatim>\<open>!googleAIService\<close> and the
  assignment to \<^verbatim>\<open>googleAIService\<close>. It is modelled by its two synchronous parts. The
  first part runs when the effect runs: it reads the module variable and either goes on
  to the await or, the instance being there, only calls \<^verbatim>\<open>setIsReady(true)\<close>.
\<close>

datatype init_task = AwaitingApiKey | Settled

definition initializeService_enter ::
  "GoogleAIService option \<Rightarrow> event list \<times> init_task" where
  "initializeService_enter googleAIService =
     (case googleAIService of
        None \<Rightarrow> ([], AwaitingApiKey)
      | Some _ \<Rightarrow> ([SetIsReady True], Settled))"

text \<open>
  The second part runs when the awaited key arrives. It does not read the module variable
  again: it throws on a falsy key, or constructs the service and assigns it. The
  \<^verbatim>\<open>catch\<close> turns a throw into \<^verbatim>\<open>setError\<close> and leaves the module variable as it is.
\<close>

definition initializeService_resume ::
  "string \<Rightarrow> UseGoogleAIProps option \<Rightarrow> GoogleAIService option
     \<Rightarrow> event list \<times> GoogleAIService option" where
  "initializeService_resume key props googleAIService =
     (if \<not> truthy (Some key) then
        ([SetError (Some (message_or (Error ''Google AI API key is not configured'')
                            ''Failed to initialize Google AI service''))],
         googleAIService)
      else
        (case new_GoogleAIService
                \<lparr>apiKey = key,
                 config_modelName =
                   Some (or_else (case props of None \<Rightarrow> None | Some p \<Rightarrow> props_modelName p)
                           GEMINI_PRO),
                 safetySettings = None,
                 generationConfig = None\<rparr>
         of
           (evs, Inl err) \<Rightarrow>
             (evs @ [SetError (Some (message_or err ''Failed to initialize Google AI service''))],
              googleAIService)
         | (evs, Inr service) \<Rightarrow> (evs @ [SetIsReady True], Some service)))"

text \<open>One initialization that runs from start to end with nothing else in between.\<close>

definition initializeService ::
  "string option \<Rightarrow> UseGoogleAIProps option \<Rightarrow> GoogleAIService option
     \<Rightarrow> event list \<times> GoogleAIService option" where
  "initializeService env props googleAIService =
     (case initializeService_enter googleAIService of
        (evs, Settled) \<Rightarrow> (evs, googleAIService)
      | (evs, AwaitingApiKey) \<Rightarrow>
          (case initializeService_resume (getApiKey env) props googleAIService of
             (evs', g) \<Rightarrow> (evs @ evs', g)))"

text \<open>
  The module as the event loop sees it: the module variable \<^verbatim>\<open>googleAIService\<close> and the
  initializations suspended at their await, oldest first. An effect of some hook instance
  runs (\<open>RunEffect\<close>, with that instance's props), or the oldest suspended initialization
  is resumed (\<open>Resume\<close>; resuming with nothing suspended does nothing).
\<close>

record module_state =
  googleAIService :: "GoogleAIService option"
  suspended :: "UseGoogleAIProps option list"

datatype action = RunEffect "UseGoogleAIProps option" | Resume

definition initial_module_state :: module_state where
  "initial_module_state = \<lparr>googleAIService = None, suspended = []\<rparr>"

fun step :: "string option \<Rightarrow> module_state \<Rightarrow> action \<Rightarrow> module_state" where
  "step env s (RunEffect props) =
     (case snd (initializeService_enter (googleAIService s)) of
        AwaitingApiKey \<Rightarrow> s\<lparr>suspended := suspended s @ [props]\<rparr>
      | Settled \<Rightarrow> s)"
| "step env s Resume =
     (case suspended s of
        [] \<Rightarrow> s
      | props # rest \<Rightarrow>
          \<lparr>googleAIService =
             snd (initializeService_resume (getApiKey env) props (googleAIService s)),
           suspended = rest\<rparr>)"

definition run :: "string option \<Rightarrow> module_state \<Rightarrow> action list \<Rightarrow> module_state" where
  "run env s acts = foldl (step env) s acts"

text \<open>
  \<^verbatim>\<open>generateResponse\<close>. The guard on the module variable throws before the \<^verbatim>\<open>try\<close>; inside
  it, \<^verbatim>\<open>if (response.error)\<close> tests the truthiness of the error string.
\<close>

definition generateResponse ::
  "vendor \<Rightarrow> GoogleAIService option \<Rightarrow> string \<Rightarrow> event list \<times> (thrown + string)" where
  "generateResponse v service_var prompt =
     (case service_var of
        None \<Rightarrow> ([], Inl (Error ''Google AI service is not initialized''))
      | Some service \<Rightarrow>
          (case generateContent v service prompt of
             (evs, Inr resp) \<Rightarrow>
               (if truthy (error resp) then
                  ([SetIsLoading True, SetError None] @ evs
                     @ [SetError (error resp), SetIsLoading False],
                   Inr '''')
                else
                  ([SetIsLoading True, SetError None] @ evs @ [SetIsLoading False],
                   Inr (text' resp)))
           | (evs, Inl err) \<Rightarrow>
               ([SetIsLoading True, SetError None] @ evs
                  @ [SetError (Some (message_or err ''Unknown error occurred'')),
                     SetIsLoading False],
                Inr '''')))"

text \<open>\<^verbatim>\<open>generateResponseStream\<close>: the \<^verbatim>\<open>catch\<close> keeps the failure in the error state.\<close>

definition generateResponseStream ::
  "vendor \<Rightarrow> GoogleAIService option \<Rightarrow> string \<Rightarrow> 'c callback \<Rightarrow> 'c
     \<Rightarrow> event list \<times> 'c \<times> (thrown + unit)" where
  "generateResponseStream v service_var prompt onChunk c =
     (case service_var of
        None \<Rightarrow> ([], c, Inl (Error ''Google AI service is not initialized''))
      | Some service \<Rightarrow>
          (case generateContentStream v service prompt onChunk c of
             (evs, c', Inr u) \<Rightarrow>
               ([SetIsLoading True, SetError None] @ evs @ [SetIsLoading False], c', Inr ())
           | (evs, c', Inl err) \<Rightarrow>
               ([SetIsLoading True, SetError None] @ evs
                  @ [SetError (Some (message_or err ''Unknown error occurred'')),
                     SetIsLoading False],
                c', Inr ())))"

definition startChatSession ::
  "turn_check \<Rightarrow> GoogleAIService option \<Rightarrow> thrown + ChatSession" where
  "startChatSession check service_var =
     (case service_var of
        None \<Rightarrow> Inl (Error ''Google AI service is not initialized'')
      | Some service \<Rightarrow> startChat check service None)"


section \<open>Vendor behaviours and streams used in the examples\<close>

text \<open>A vendor that answers every request with the same text (one chunk when streaming).\<close>

definition vendor_replying :: "string \<Rightarrow> vendor" where
  "vendor_replying t =
     \<lparr>model_generateContent =
        (\<lambda>m p. Inr (GenerateContentResult (Inr (EnhancedGenerateContentResponse (Inr t))))),
      model_generateContentStream =
        (\<lambda>m p. Inr (GenerateContentStreamResult
                   (StreamChunk (EnhancedGenerateContentResponse (Inr t)) StreamEnd)))\<rparr>"

text \<open>A vendor that rejects every request with the same thrown value.\<close>

definition vendor_rejecting :: "thrown \<Rightarrow> vendor" where
  "vendor_rejecting e =
     \<lparr>model_generateContent = (\<lambda>m p. Inl e),
      model_generateContentStream = (\<lambda>m p. Inl e)\<rparr>"

text \<open>A vendor whose stream request succeeds with the given stream.\<close>

definition vendor_streaming :: "chunk_stream \<Rightarrow> vendor" where
  "vendor_streaming st =
     \<lparr>model_generateContent = (\<lambda>m p. Inl (Error ''not a one-shot vendor'')),
      model_generateContentStream = (\<lambda>m p. Inr (GenerateContentStreamResult st))\<rparr>"

text \<open>The stream that delivers the given texts, one chunk each, and then goes on as \<open>rest\<close>.\<close>

fun stream_of :: "string list \<Rightarrow> chunk_stream \<Rightarrow> chunk_stream" where
  "stream_of [] rest = rest"
| "stream_of (t # ts) rest =
     StreamChunk (EnhancedGenerateContentResponse (Inr t)) (stream_of ts rest)"

text \<open>A callback that appends each fragment to the caller's list and never throws.\<close>

definition collect :: "string list callback" where
  "collect t c = (c @ [t], None)"

text \<open>A check of the turns of a history that refuses a first turn whose role is not \<^verbatim>\<open>user\<close>.\<close>

definition user_first :: turn_check where
  "user_first first turn =
     (if first \<and> role turn \<noteq> ''user''
      then Some (Error ''First content should be with role user'')
      else None)"

text \<open>A service instance for the examples, and the configuration it is built from.\<close>

definition example_config :: "string \<Rightarrow> GoogleAIConfig" where
  "example_config name =
     \<lparr>apiKey = ''k'', config_modelName = Some name, safetySettings = None,
      generationConfig = None\<rparr>"

definition example_service :: "string \<Rightarrow> GoogleAIService" where
  "example_service name =
     \<lparr>genAI = GoogleGenerativeAI ''k'',
      model = GenerativeModel ''k''
        \<lparr>params_model = name, params_safetySettings = getDefaultSafetySettings,
         params_generationConfig = getDefaultGenerationConfig name\<rparr>,
      modelName = name\<rparr>"

text \<open>Generation parameters a caller might supply at construction.\<close>

definition example_generationConfig :: GenerationConfig where
  "example_generationConfig =
     \<lparr>temperature = Some 0.1, topK = Some 40, topP = Some 0.5, maxOutputTokens = Some 256,
      responseMimeType = None, candidateCount = None\<rparr>"


section \<open>Basic facts\<close>

text \<open>\<open>str_includes\<close> is the substring relation.\<close>

lemma str_includes_iff:
  "str_includes s t \<longleftrightarrow> (\<exists>ps ss. s = ps @ t @ ss)"
proof -
  have "str_includes s t = sublist t s"
    by (induction s) (auto simp: sublist_Cons_right)
  then show ?thesis by (simp add: sublist_def)
qed

lemma or_else_nonempty: "d \<noteq> [] \<Longrightarrow> or_else x d \<noteq> []"
  by (cases x) simp_all

lemma GEMINI_PRO_value: "GEMINI_PRO = ''gemini-pro''"
  by (simp add: GEMINI_PRO_def GEMINI_MODELS_def)

text \<open>The credential resolver never returns the empty string: the fallback is not empty.\<close>

lemma getApiKey_nonempty: "getApiKey env \<noteq> []"
  by (simp add: getApiKey_def GOOGLE_AI_API_KEY_def or_else_nonempty)


section \<open>The model catalog\<close>

lemma same_value_same_key:
  "distinct (map snd xs) \<Longrightarrow> (a, v) \<in> set xs \<Longrightarrow> (b, v) \<in> set xs \<Longrightarrow> a = b"
  by (induction xs) (auto simp: image_iff)

lemma catalog_keys_distinct: "distinct (map fst GEMINI_MODELS)"
  by (simp add: GEMINI_MODELS_def)

lemma catalog_values_distinct: "distinct (map snd GEMINI_MODELS)"
  by (simp add: GEMINI_MODELS_def)

lemma catalog_values_nonempty: "(k, v) \<in> set GEMINI_MODELS \<Longrightarrow> v \<noteq> []"
  by (auto simp: GEMINI_MODELS_def)

text \<open>
  Claim C7. For every identifier of the catalog (every key of \<^verbatim>\<open>GEMINI_MODELS\<close>) the lookup
  yields a vendor model string, that string is not empty, and no other identifier of the
  catalog yields the same string.
\<close>

theorem catalog_nonempty_injective:
  assumes "k \<in> fst ` set GEMINI_MODELS"
  shows "\<exists>v. map_of GEMINI_MODELS k = Some v \<and> v \<noteq> [] \<and>
           (\<forall>k' \<in> fst ` set GEMINI_MODELS. map_of GEMINI_MODELS k' = Some v \<longrightarrow> k' = k)"
proof -
  from assms obtain v where kv: "(k, v) \<in> set GEMINI_MODELS"
    by auto
  have look: "map_of GEMINI_MODELS k = Some v"
    using catalog_keys_distinct kv by (rule map_of_is_SomeI)
  have inj: "k' = k" if "map_of GEMINI_MODELS k' = Some v" for k'
  proof -
    from that have "(k', v) \<in> set GEMINI_MODELS"
      by (rule map_of_SomeD)
    with catalog_values_distinct show ?thesis
      using kv by (rule same_value_same_key)
  qed
  from look catalog_values_nonempty [OF kv] inj show ?thesis
    by blast
qed

text \<open>At \<^verbatim>\<open>GEMINI_20_FLASH\<close>, against the key whose value has that value as a prefix.\<close>

theorem catalog_nonempty_injective_witness:
  "''GEMINI_20_FLASH'' \<in> fst ` set GEMINI_MODELS \<and>
   map_of GEMINI_MODELS ''GEMINI_20_FLASH'' = Some ''gemini-2.0-flash'' \<and>
   map_of GEMINI_MODELS ''GEMINI_20_FLASH_LITE'' \<noteq> map_of GEMINI_MODELS ''GEMINI_20_FLASH''"
proof -
  have m: "''GEMINI_20_FLASH'' \<in> fst ` set GEMINI_MODELS"
    by (simp add: GEMINI_MODELS_def)
  have l: "''GEMINI_20_FLASH_LITE'' \<in> fst ` set GEMINI_MODELS"
    by (simp add: GEMINI_MODELS_def)
  have v: "map_of GEMINI_MODELS ''GEMINI_20_FLASH'' = Some ''gemini-2.0-flash''"
    by (simp add: GEMINI_MODELS_def)
  from catalog_nonempty_injective [OF m] v l
  have "map_of GEMINI_MODELS ''GEMINI_20_FLASH_LITE'' = Some ''gemini-2.0-flash''
          \<longrightarrow> ''GEMINI_20_FLASH_LITE'' = ''GEMINI_20_FLASH''"
    by auto
  with m v show ?thesis by auto
qed


section \<open>Default generation parameters\<close>

text \<open>
  Claim C1. For every model name: if \<^verbatim>\<open>gemini-2.0\<close> occurs in it, the default generation
  configuration is temperature 0.4, topK 1, topP 0.95, maxOutputTokens 8192; otherwise, if
  \<^verbatim>\<open>gemini-1.5\<close> occurs in it, it is temperature 0.9, topK 1, topP 0.95, maxOutputTokens
  8192; otherwise it is the base, temperature 0.9, topK 1, topP 0.95, maxOutputTokens 2048.
  The three conditions exclude each other and cover every name, so exactly one rule
  applies, and a name in which both substrings occur falls under the first.
\<close>

theorem getDefaultGenerationConfig_rules:
  "((\<exists>ps ss. n = ps @ ''gemini-2.0'' @ ss) \<longrightarrow>
      getDefaultGenerationConfig n =
        \<lparr>temperature = Some 0.4, topK = Some 1, topP = Some 0.95,
         maxOutputTokens = Some 8192, responseMimeType = None, candidateCount = None\<rparr>) \<and>
   (\<not> (\<exists>ps ss. n = ps @ ''gemini-2.0'' @ ss) \<and> (\<exists>ps ss. n = ps @ ''gemini-1.5'' @ ss) \<longrightarrow>
      getDefaultGenerationConfig n =
        \<lparr>temperature = Some 0.9, topK = Some 1, topP = Some 0.95,
         maxOutputTokens = Some 8192, responseMimeType = None, candidateCount = None\<rparr>) \<and>
   (\<not> (\<exists>ps ss. n = ps @ ''gemini-2.0'' @ ss) \<and> \<not> (\<exists>ps ss. n = ps @ ''gemini-1.5'' @ ss) \<longrightarrow>
      getDefaultGenerationConfig n =
        \<lparr>temperature = Some 0.9, topK = Some 1, topP = Some 0.95,
         maxOutputTokens = Some 2048, responseMimeType = None, candidateCount = None\<rparr>)"
  unfolding str_includes_iff [symmetric]
  by (simp add: getDefaultGenerationConfig_def base_config_def)

text \<open>
  One name for each rule, and a name that contains both substrings (\<^verbatim>\<open>gemini-1.5\<close> first):
  the rule for \<^verbatim>\<open>gemini-2.0\<close> wins.
\<close>

theorem getDefaultGenerationConfig_rules_witness:
  "getDefaultGenerationConfig ''gemini-2.0-flash'' =
     \<lparr>temperature = Some 0.4, topK = Some 1, topP = Some 0.95,
      maxOutputTokens = Some 8192, responseMimeType = None, candidateCount = None\<rparr> \<and>
   getDefaultGenerationConfig ''tuned-gemini-1.5-from-gemini-2.0'' =
     \<lparr>temperature = Some 0.4, topK = Some 1, topP = Some 0.95,
      maxOutputTokens = Some 8192, responseMimeType = None, candidateCount = None\<rparr> \<and>
   getDefaultGenerationConfig ''gemini-1.5-pro'' =
     \<lparr>temperature = Some 0.9, topK = Some 1, topP = Some 0.95,
      maxOutputTokens = Some 8192, responseMimeType = None, candidateCount = None\<rparr> \<and>
   getDefaultGenerationConfig ''gemini-pro'' =
     \<lparr>temperature = Some 0.9, topK = Some 1, topP = Some 0.95,
      maxOutputTokens = Some 2048, responseMimeType = None, candidateCount = None\<rparr>"
proof -
  have a: "\<exists>ps ss. ''gemini-2.0-flash'' = ps @ ''gemini-2.0'' @ ss"
    unfolding str_includes_iff [symmetric] by simp
  have b: "\<exists>ps ss. ''tuned-gemini-1.5-from-gemini-2.0'' = ps @ ''gemini-2.0'' @ ss"
    unfolding str_includes_iff [symmetric] by simp
  have c: "\<not> (\<exists>ps ss. ''gemini-1.5-pro'' = ps @ ''gemini-2.0'' @ ss) \<and>
           (\<exists>ps ss. ''gemini-1.5-pro'' = ps @ ''gemini-1.5'' @ ss)"
    unfolding str_includes_iff [symmetric] by simp
  have d: "\<not> (\<exists>ps ss. ''gemini-pro'' = ps @ ''gemini-2.0'' @ ss) \<and>
           \<not> (\<exists>ps ss. ''gemini-pro'' = ps @ ''gemini-1.5'' @ ss)"
    unfolding str_includes_iff [symmetric] by simp
  show ?thesis
    using getDefaultGenerationConfig_rules [THEN conjunct1, THEN mp, OF a]
      getDefaultGenerationConfig_rules [THEN conjunct1, THEN mp, OF b]
      getDefaultGenerationConfig_rules [THEN conjunct2, THEN conjunct1, THEN mp, OF c]
      getDefaultGenerationConfig_rules [THEN conjunct2, THEN conjunct2, THEN mp, OF d]
    by (intro conjI)
qed


section \<open>Construction\<close>

text \<open>
  Claim C2. Constructing the adapter with an empty \<^verbatim>\<open>apiKey\<close> always fails, with the error
  \<^verbatim>\<open>Error('Google AI API key is required')\<close> (the configuration error of the
  specification), and it fails before anything is constructed: no vendor client handle
  and no model handle, whatever the other fields of the configuration are.
\<close>

theorem empty_apiKey_fails_before_any_effect:
  "apiKey config = [] \<Longrightarrow>
     new_GoogleAIService config = ([], Inl (Error ''Google AI API key is required''))"
  by (simp add: new_GoogleAIService_def)

theorem empty_apiKey_fails_before_any_effect_witness:
  "new_GoogleAIService
     \<lparr>apiKey = '''', config_modelName = Some ''gemini-2.0-flash'', safetySettings = None,
      generationConfig = None\<rparr>
   = ([], Inl (Error ''Google AI API key is required''))"
  using empty_apiKey_fails_before_any_effect
    [of "\<lparr>apiKey = '''', config_modelName = Some ''gemini-2.0-flash'', safetySettings = None,
          generationConfig = None\<rparr>"]
  by simp

text \<open>
  Claim C9. When the adapter is constructed (with a key that is not empty) and the model
  name is missing or empty, construction succeeds and binds \<^verbatim>\<open>gemini-pro\<close>: that is what
  \<^verbatim>\<open>getCurrentModelName\<close> returns and what the model handle is built for, and the default
  generation configuration of the instance is the base configuration.
\<close>

theorem missing_modelName_binds_gemini_pro:
  "apiKey config \<noteq> [] \<Longrightarrow>
   config_modelName config = None \<or> config_modelName config = Some [] \<Longrightarrow>
     \<exists>evs this. new_GoogleAIService config = (evs, Inr this) \<and>
       getCurrentModelName this = ''gemini-pro'' \<and>
       params_model (handle_params (model this)) = ''gemini-pro'' \<and>
       getDefaultGenerationConfig (modelName this) =
         \<lparr>temperature = Some 0.9, topK = Some 1, topP = Some 0.95,
          maxOutputTokens = Some 2048, responseMimeType = None, candidateCount = None\<rparr>"
  by (auto simp: new_GoogleAIService_def Let_def getCurrentModelName_def
      getDefaultGenerationConfig_def base_config_def)

text \<open>Once with the name missing, once with the empty name.\<close>

theorem missing_modelName_binds_gemini_pro_witness:
  "map_sum id getCurrentModelName
     (snd (new_GoogleAIService
        \<lparr>apiKey = ''k'', config_modelName = None, safetySettings = None,
         generationConfig = None\<rparr>)) = Inr ''gemini-pro'' \<and>
   map_sum id getCurrentModelName
     (snd (new_GoogleAIService
        \<lparr>apiKey = ''k'', config_modelName = Some '''', safetySettings = None,
         generationConfig = None\<rparr>)) = Inr ''gemini-pro''"
  using
    missing_modelName_binds_gemini_pro
      [of "\<lparr>apiKey = ''k'', config_modelName = None, safetySettings = None,
            generationConfig = None\<rparr>"]
    missing_modelName_binds_gemini_pro
      [of "\<lparr>apiKey = ''k'', config_modelName = Some '''', safetySettings = None,
            generationConfig = None\<rparr>"]
  by auto


section \<open>One-shot generation\<close>

text \<open>
  Claim C3. For every vendor behaviour, instance and prompt, \<^verbatim>\<open>generateContent\<close> returns a
  result and never throws. If any of the three vendor steps throws (the request, the
  awaited response, \<^verbatim>\<open>response.text()\<close>), the result has the empty text and carries the
  message of what was thrown (\<^verbatim>\<open>Unknown error occurred\<close> when that is not an \<^verbatim>\<open>Error\<close>);
  if all three succeed, the result has the response text and no error field.
\<close>

theorem generateContent_never_raises:
  "\<exists>r. snd (generateContent v this prompt) = Inr r \<and>
     (\<forall>e. model_generateContent v (model this) prompt = Inl e \<longrightarrow>
        r = \<lparr>text' = '''', error = Some (message_or e ''Unknown error occurred'')\<rparr>) \<and>
     (\<forall>res e. model_generateContent v (model this) prompt = Inr res \<and> response res = Inl e \<longrightarrow>
        r = \<lparr>text' = '''', error = Some (message_or e ''Unknown error occurred'')\<rparr>) \<and>
     (\<forall>res resp e. model_generateContent v (model this) prompt = Inr res \<and>
          response res = Inr resp \<and> response_text resp = Inl e \<longrightarrow>
        r = \<lparr>text' = '''', error = Some (message_or e ''Unknown error occurred'')\<rparr>) \<and>
     (\<forall>res resp t. model_generateContent v (model this) prompt = Inr res \<and>
          response res = Inr resp \<and> response_text resp = Inr t \<longrightarrow>
        r = \<lparr>text' = t, error = None\<rparr>)"
  by (simp add: generateContent_def split: sum.splits)

text \<open>A vendor that rejects with an \<^verbatim>\<open>Error\<close>, one that rejects with another value, one that answers.\<close>

theorem generateContent_never_raises_witness:
  "snd (generateContent (vendor_rejecting (Error ''quota exceeded'')) (example_service ''gemini-pro'')
          ''hello'')
     = Inr \<lparr>text' = '''', error = Some ''quota exceeded''\<rparr> \<and>
   snd (generateContent (vendor_rejecting (NonError ''42'')) (example_service ''gemini-pro'')
          ''hello'')
     = Inr \<lparr>text' = '''', error = Some ''Unknown error occurred''\<rparr> \<and>
   snd (generateContent (vendor_replying ''hi there'') (example_service ''gemini-pro'') ''hello'')
     = Inr \<lparr>text' = ''hi there'', error = None\<rparr>"
proof -
  have a: "model_generateContent (vendor_rejecting (Error ''quota exceeded''))
             (model (example_service ''gemini-pro'')) ''hello'' = Inl (Error ''quota exceeded'')"
    by (simp add: vendor_rejecting_def)
  have b: "model_generateContent (vendor_rejecting (NonError ''42''))
             (model (example_service ''gemini-pro'')) ''hello'' = Inl (NonError ''42'')"
    by (simp add: vendor_rejecting_def)
  have c: "model_generateContent (vendor_replying ''hi there'')
             (model (example_service ''gemini-pro'')) ''hello''
           = Inr (GenerateContentResult (Inr (EnhancedGenerateContentResponse (Inr ''hi there''))))"
    by (simp add: vendor_replying_def)
  from a generateContent_never_raises
    [of "vendor_rejecting (Error ''quota exceeded'')" "example_service ''gemini-pro''" "''hello''"]
  have 1: "snd (generateContent (vendor_rejecting (Error ''quota exceeded''))
                 (example_service ''gemini-pro'') ''hello'')
           = Inr \<lparr>text' = '''', error = Some ''quota exceeded''\<rparr>"
    by auto
  from b generateContent_never_raises
    [of "vendor_rejecting (NonError ''42'')" "example_service ''gemini-pro''" "''hello''"]
  have 2: "snd (generateContent (vendor_rejecting (NonError ''42''))
                 (example_service ''gemini-pro'') ''hello'')
           = Inr \<lparr>text' = '''', error = Some ''Unknown error occurred''\<rparr>"
    by auto
  from c generateContent_never_raises
    [of "vendor_replying ''hi there''" "example_service ''gemini-pro''" "''hello''"]
  have 3: "snd (generateContent (vendor_replying ''hi there'') (example_service ''gemini-pro'')
                 ''hello'')
           = Inr \<lparr>text' = ''hi there'', error = None\<rparr>"
    by auto
  from 1 2 3 show ?thesis by simp
qed


section \<open>Streaming generation\<close>


text \<open>
  Every stream delivers some texts and then is exhausted, or rejects, or delivers a chunk
  whose \<^verbatim>\<open>text()\<close> throws: the three shapes of the next theorem cover every stream.
\<close>

lemma chunk_stream_cases:
  "\<exists>ts. st = stream_of ts StreamEnd \<or> (\<exists>e. st = stream_of ts (StreamFail e)) \<or>
        (\<exists>e rest. st = stream_of ts (StreamChunk (EnhancedGenerateContentResponse (Inl e)) rest))"
proof (induction st)
  case StreamEnd
  have "StreamEnd = stream_of [] StreamEnd" by simp
  then show ?case by blast
next
  case (StreamFail e)
  have "StreamFail e = stream_of [] (StreamFail e)" by simp
  then show ?case by blast
next
  case (StreamChunk chunk st)
  show ?case
  proof (cases chunk)
    case (EnhancedGenerateContentResponse r)
    show ?thesis
    proof (cases r)
      case (Inl e)
      have "StreamChunk chunk st =
              stream_of [] (StreamChunk (EnhancedGenerateContentResponse (Inl e)) st)"
        by (simp add: EnhancedGenerateContentResponse Inl)
      then show ?thesis by blast
    next
      case (Inr t)
      from StreamChunk.IH obtain ts where
        ts: "st = stream_of ts StreamEnd \<or> (\<exists>e. st = stream_of ts (StreamFail e)) \<or>
             (\<exists>e rest. st = stream_of ts (StreamChunk (EnhancedGenerateContentResponse (Inl e)) rest))"
        by blast
      have "\<And>rest. st = stream_of ts rest \<Longrightarrow> StreamChunk chunk st = stream_of (t # ts) rest"
        by (simp add: EnhancedGenerateContentResponse Inr)
      with ts show ?thesis by blast
    qed
  qed
qed




section \<open>Chat sessions\<close>

text \<open>A history the SDK refuses: the call throws what the SDK throws, and there is no session.\<close>

lemma startChat_refused_history:
  "validateChatHistory check True h = Some e \<Longrightarrow> startChat check this (Some h) = Inl e"
  by (simp add: startChat_def)

lemma startChat_refuses_model_first:
  "startChat user_first (example_service ''gemini-pro'')
     (Some [\<lparr>role = ''model'', parts = [''hello'']\<rparr>])
   = Inl (Error ''First content should be with role user'')"
  by (simp add: startChat_def user_first_def)

text \<open>
  An instance constructed without generation parameters of the caller's, and a history
  the SDK accepts: the session gets the history it was given (none is the empty history)
  and the same generation configuration the model handle was built with.
\<close>

lemma startChat_without_supplied_config:
  "new_GoogleAIService config = (evs, Inr this) \<Longrightarrow> generationConfig config = None \<Longrightarrow>
   validateChatHistory check True (case h of None \<Rightarrow> [] | Some x \<Rightarrow> x) = None \<Longrightarrow>
     startChat check this h =
       Inr (ChatSession (model this)
         \<lparr>history = (case h of None \<Rightarrow> [] | Some x \<Rightarrow> x),
          chat_generationConfig = params_generationConfig (handle_params (model this))\<rparr>)"
  by (auto simp: new_GoogleAIService_def startChat_def Let_def split: if_splits)

text \<open>
  Claim C5 says that \<^verbatim>\<open>startChat\<close> binds the session to the generation configuration fixed
  at construction, also for an instance constructed with a configuration of the caller's.
  The constructor honours \<^verbatim>\<open>config.generationConfig\<close>, but does not keep it, and
  \<^verbatim>\<open>startChat\<close> passes \<^verbatim>\<open>getDefaultGenerationConfig()\<close>: for the instance built for
  \<^verbatim>\<open>gemini-pro\<close> with the caller's parameters (temperature 0.1, topK 40, topP 0.5,
  maxOutputTokens 256) construction succeeds and the model handle has the caller's
  parameters, while the session started with no history, whatever the SDK's check of the
  turns is, is the session with the empty history and the base configuration, which is a
  different one.
\<close>

theorem startChat_drops_supplied_generationConfig:
  "\<exists>evs this.
     new_GoogleAIService
       \<lparr>apiKey = ''k'', config_modelName = Some ''gemini-pro'', safetySettings = None,
        generationConfig = Some example_generationConfig\<rparr> = (evs, Inr this) \<and>
     params_generationConfig (handle_params (model this)) = example_generationConfig \<and>
     startChat check this None =
       Inr (ChatSession (model this)
              \<lparr>history = [], chat_generationConfig = base_config\<rparr>) \<and>
     base_config \<noteq> example_generationConfig"
  by (simp add: new_GoogleAIService_def startChat_def Let_def getDefaultGenerationConfig_def
      base_config_def example_generationConfig_def)


section \<open>The shared instance\<close>

text \<open>An initialization that starts when the instance exists leaves it alone.\<close>

lemma initializeService_keeps_instance:
  "initializeService env props (Some service) = ([SetIsReady True], Some service)"
  by (simp add: initializeService_def initializeService_enter_def)

lemma step_keeps_settled_instance:
  "googleAIService s = Some service \<Longrightarrow> suspended s = [] \<Longrightarrow> step env s a = s"
  by (cases a) (simp_all add: initializeService_enter_def)

text \<open>
  Once the instance exists and no initialization is suspended, nothing that happens later
  changes the module state, whatever model names later hook invocations ask for.
\<close>

lemma run_keeps_settled_instance:
  "googleAIService s = Some service \<Longrightarrow> suspended s = [] \<Longrightarrow> run env s acts = s"
  unfolding run_def
  by (induction acts) (simp_all add: step_keeps_settled_instance)

text \<open>The first initialization, run to its end, creates the instance for the name it asked for.\<close>

lemma first_initialization:
  "\<exists>service.
     run env initial_module_state [RunEffect props, Resume]
       = \<lparr>googleAIService = Some service, suspended = []\<rparr> \<and>
     modelName service
       = or_else (case props of None \<Rightarrow> None | Some p \<Rightarrow> props_modelName p) ''gemini-pro''"
  using getApiKey_nonempty [of env]
  by (simp add: run_def initial_module_state_def initializeService_enter_def
      initializeService_resume_def new_GoogleAIService_def Let_def GEMINI_PRO_value
      or_else_nonempty)

text \<open>
  So when the first initialization has finished before any other effect runs, every later
  invocation observes the instance of the first.
\<close>

lemma later_invocations_keep_first_instance:
  "run env initial_module_state (RunEffect props # Resume # acts)
     = run env initial_module_state [RunEffect props, Resume]"
proof -
  obtain service where
    s: "run env initial_module_state [RunEffect props, Resume]
          = \<lparr>googleAIService = Some service, suspended = []\<rparr>"
    using first_initialization [of env props] by blast
  have "run env initial_module_state (RunEffect props # Resume # acts)
          = run env (run env initial_module_state [RunEffect props, Resume]) acts"
    by (simp add: run_def)
  also have "\<dots> = run env initial_module_state [RunEffect props, Resume]"
    unfolding s by (rule run_keeps_settled_instance) simp_all
  finally show ?thesis .
qed

text \<open>
  Claim C6 says that the instance created by the first initialization is never replaced,
  so that of two hook invocations with different model names the second observes the
  instance and the model binding of the first. The comment in the code says the same
  (\<^verbatim>\<open>// Only initialize once\<close>), but the test of the module variable and the assignment to
  it are separated by \<^verbatim>\<open>await getApiKey()\<close>. Two hook instances whose effects run in the same
  commit, the first asking for \<^verbatim>\<open>gemini-2.0-flash\<close> and the second for \<^verbatim>\<open>gemini-1.5-pro\<close>,
  both pass the test before either is resumed: when the first is resumed the shared
  instance is bound to \<^verbatim>\<open>gemini-2.0-flash\<close>, and when the second is resumed that instance
  is replaced by one bound to \<^verbatim>\<open>gemini-1.5-pro\<close>.
\<close>

theorem interleaved_initializations_replace_instance:
  "map_option modelName
     (googleAIService
        (run None initial_module_state
           [RunEffect (Some \<lparr>props_modelName = Some ''gemini-2.0-flash''\<rparr>),
            RunEffect (Some \<lparr>props_modelName = Some ''gemini-1.5-pro''\<rparr>),
            Resume]))
     = Some ''gemini-2.0-flash'' \<and>
   map_option modelName
     (googleAIService
        (run None initial_module_state
           [RunEffect (Some \<lparr>props_modelName = Some ''gemini-2.0-flash''\<rparr>),
            RunEffect (Some \<lparr>props_modelName = Some ''gemini-1.5-pro''\<rparr>),
            Resume, Resume]))
     = Some ''gemini-1.5-pro''"
  by (simp add: run_def initial_module_state_def initializeService_enter_def
      initializeService_resume_def getApiKey_def GOOGLE_AI_API_KEY_def
      new_GoogleAIService_def Let_def)


section \<open>The loading flag\<close>

lemma for_await_events:
  "ev \<in> set (fst (for_await onChunk st c)) \<Longrightarrow> \<exists>t. ev = OnChunk t"
proof (induction st arbitrary: c)
  case StreamEnd
  then show ?case by simp
next
  case (StreamFail e)
  then show ?case by simp
next
  case (StreamChunk chunk st)
  then show ?case
    by (auto split: sum.splits prod.splits option.splits) (metis fst_conv)
qed

text \<open>The adapter's streaming operation never touches the loading flag, whatever the callback does.\<close>

lemma generateContentStream_events:
  "ev \<in> set (fst (generateContentStream v this prompt onChunk c)) \<Longrightarrow> ev \<noteq> SetIsLoading b"
proof -
  assume a: "ev \<in> set (fst (generateContentStream v this prompt onChunk c))"
  show ?thesis
  proof (cases "model_generateContentStream v (model this) prompt")
    case (Inl e)
    with a show ?thesis by (auto simp: generateContentStream_def)
  next
    case (Inr result)
    obtain evs c' r where f: "for_await onChunk (stream result) c = (evs, c', r)"
      by (metis prod_cases3)
    from a Inr f have "ev = ModelGenerateContentStream (model this) prompt \<or> ev \<in> set evs"
      by (auto simp: generateContentStream_def)
    moreover have "ev \<in> set evs \<Longrightarrow> \<exists>t. ev = OnChunk t"
      using for_await_events [of ev onChunk "stream result" c] f by simp
    ultimately show ?thesis by auto
  qed
qed

text \<open>
  Claim C8, amended. For every call of the hook's \<^verbatim>\<open>generateResponse\<close> or
  \<^verbatim>\<open>generateResponseStream\<close> made when the shared instance exists, whatever the vendor
  and the callback do: the first thing the call does is \<^verbatim>\<open>setIsLoading(true)\<close>, the last
  thing it does is \<^verbatim>\<open>setIsLoading(false)\<close>, and it does not set the flag in between, so the
  flag is up for the duration of the call and down after it on every path. A call made
  when the shared instance does not exist throws
  \<^verbatim>\<open>Error('Google AI service is not initialized')\<close> and does nothing else.
\<close>

theorem isLoading_brackets_the_call:
  "(\<exists>mid. fst (generateResponse v (Some service) prompt)
             = SetIsLoading True # mid @ [SetIsLoading False] \<and>
          (\<forall>b. SetIsLoading b \<notin> set mid)) \<and>
   (\<exists>mid. fst (generateResponseStream v (Some service) prompt onChunk c)
             = SetIsLoading True # mid @ [SetIsLoading False] \<and>
          (\<forall>b. SetIsLoading b \<notin> set mid)) \<and>
   generateResponse v None prompt = ([], Inl (Error ''Google AI service is not initialized'')) \<and>
   generateResponseStream v None prompt onChunk c
     = ([], c, Inl (Error ''Google AI service is not initialized''))"
proof -
  have 1: "\<exists>mid. fst (generateResponse v (Some service) prompt)
             = SetIsLoading True # mid @ [SetIsLoading False] \<and>
          (\<forall>b. SetIsLoading b \<notin> set mid)"
    by (simp add: generateResponse_def generateContent_def split: sum.splits)
  obtain evs c' r where g: "generateContentStream v service prompt onChunk c = (evs, c', r)"
    by (metis prod_cases3)
  have evs: "\<forall>b. SetIsLoading b \<notin> set evs"
    using generateContentStream_events [of _ v service prompt onChunk c] g by auto
  have 2: "\<exists>mid. fst (generateResponseStream v (Some service) prompt onChunk c)
             = SetIsLoading True # mid @ [SetIsLoading False] \<and>
          (\<forall>b. SetIsLoading b \<notin> set mid)"
  proof (cases r)
    case (Inl e)
    with g evs show ?thesis by (simp add: generateResponseStream_def)
  next
    case (Inr u)
    with g evs show ?thesis by (simp add: generateResponseStream_def)
  qed
  from 1 2 show ?thesis
    by (simp add: generateResponse_def generateResponseStream_def)
qed

text \<open>A failing one-shot call and a stream that rejects after one chunk.\<close>

theorem isLoading_brackets_the_call_witness:
  "hd (fst (generateResponse (vendor_rejecting (Error ''quota exceeded''))
              (Some (example_service ''gemini-pro'')) ''hello'')) = SetIsLoading True \<and>
   last (fst (generateResponse (vendor_rejecting (Error ''quota exceeded''))
                (Some (example_service ''gemini-pro'')) ''hello'')) = SetIsLoading False \<and>
   hd (fst (generateResponseStream
              (vendor_streaming (stream_of [''A''] (StreamFail (Error ''reset''))))
              (Some (example_service ''gemini-pro'')) ''hello'' collect [])) = SetIsLoading True \<and>
   last (fst (generateResponseStream
                (vendor_streaming (stream_of [''A''] (StreamFail (Error ''reset''))))
                (Some (example_service ''gemini-pro'')) ''hello'' collect [])) = SetIsLoading False"
proof -
  from isLoading_brackets_the_call
    [of "vendor_rejecting (Error ''quota exceeded'')" "example_service ''gemini-pro''" "''hello''"
        collect "[]"]
  obtain mid where
    "fst (generateResponse (vendor_rejecting (Error ''quota exceeded''))
            (Some (example_service ''gemini-pro'')) ''hello'')
       = SetIsLoading True # mid @ [SetIsLoading False]"
    by blast
  then have 1:
    "hd (fst (generateResponse (vendor_rejecting (Error ''quota exceeded''))
                (Some (example_service ''gemini-pro'')) ''hello'')) = SetIsLoading True \<and>
     last (fst (generateResponse (vendor_rejecting (Error ''quota exceeded''))
                  (Some (example_service ''gemini-pro'')) ''hello'')) = SetIsLoading False"
    by simp
  from isLoading_brackets_the_call
    [of "vendor_streaming (stream_of [''A''] (StreamFail (Error ''reset'')))"
        "example_service ''gemini-pro''" "''hello''" collect "[]"]
  obtain mid' where
    "fst (generateResponseStream
            (vendor_streaming (stream_of [''A''] (StreamFail (Error ''reset''))))
            (Some (example_service ''gemini-pro'')) ''hello'' collect [])
       = SetIsLoading True # mid' @ [SetIsLoading False]"
    by blast
  then have 2:
    "hd (fst (generateResponseStream
                (vendor_streaming (stream_of [''A''] (StreamFail (Error ''reset''))))
                (Some (example_service ''gemini-pro'')) ''hello'' collect [])) = SetIsLoading True \<and>
     last (fst (generateResponseStream
                  (vendor_streaming (stream_of [''A''] (StreamFail (Error ''reset''))))
                  (Some (example_service ''gemini-pro'')) ''hello'' collect [])) = SetIsLoading False"
    by simp
  from 1 2 show ?thesis by simp
qed

text \<open>
  Claim C8 as stated, for every call, fails: a call made before the shared instance exists
  never sets the flag, neither up nor down, and throws.
\<close>

theorem isLoading_untouched_without_instance:
  "fst (generateResponse (vendor_replying ''hi'') None ''hello'') = [] \<and>
   fst (generateResponseStream (vendor_replying ''hi'') None ''hello'' collect []) = [] \<and>
   snd (generateResponse (vendor_replying ''hi'') None ''hello'')
     = Inl (Error ''Google AI service is not initialized'')"
  by (simp add: generateResponse_def generateResponseStream_def)


section \<open>The hook's one-shot generation\<close>

text \<open>The adapter's one-shot operation never throws, so the hook's \<^verbatim>\<open>catch\<close> has nothing to catch.\<close>

lemma generateContent_not_thrown:
  "snd (generateContent v this prompt) \<noteq> Inl err"
  by (simp add: generateContent_def split: sum.splits)

text \<open>
  What holds of the hook's \<^verbatim>\<open>generateResponse\<close> once the shared instance exists: it never
  rejects; when the adapter returns a result without error, it resolves with the generated
  text and the error state is null; when the adapter returns an error result whose message
  is not empty, it resolves with the empty string and the error state holds the message.
\<close>

lemma generateResponse_resolves:
  "\<exists>s. snd (generateResponse v (Some service) prompt) = Inr s \<and>
     (\<forall>t. snd (generateContent v service prompt) = Inr \<lparr>text' = t, error = None\<rparr> \<longrightarrow>
        s = t \<and>
        hook_error (state_after (fst (generateResponse v (Some service) prompt)) s0) = None) \<and>
     (\<forall>t m. snd (generateContent v service prompt) = Inr \<lparr>text' = t, error = Some m\<rparr> \<and>
          m \<noteq> [] \<longrightarrow>
        s = '''' \<and>
        hook_error (state_after (fst (generateResponse v (Some service) prompt)) s0) = Some m)"
proof -
  obtain evs r where g: "generateContent v service prompt = (evs, r)"
    by (cases "generateContent v service prompt")
  have evs: "evs = [ModelGenerateContent (model service) prompt]"
    using g by (simp add: generateContent_def)
  show ?thesis
  proof (cases r)
    case (Inl err)
    with g generateContent_not_thrown [of v service prompt err] show ?thesis
      by simp
  next
    case (Inr resp)
    show ?thesis
    proof (cases "error resp")
      case None
      with g evs Inr show ?thesis
        by (cases resp) (simp add: generateResponse_def state_after_def)
    next
      case (Some m)
      with g evs Inr show ?thesis
        by (cases resp) (simp add: generateResponse_def state_after_def)
    qed
  qed
qed


end
